theory Spec2Isabelle
  imports Complex_Main
begin

section \<open>The warehouse build of scripts/build_sqlite_warehouse.py\<close>

text \<open>
  The script reads one CSV file into a pandas data frame, cleans it, loads four dimension
  tables and one fact table into SQLite and prints a few diagnostics. The embedding follows
  \<open>main\<close> block by block. The file is decoded as ISO-8859-1, so every character of a
  column name or of a text cell is one byte, which is what \<^typ>\<open>char\<close> is.
\<close>

subsection \<open>Python string operations\<close>

text \<open>
  \<open>str.strip()\<close> removes leading and trailing whitespace. Among the code points below 256
  Python counts as whitespace: 9 to 13, 28 to 32, 133 and 160.
\<close>

definition is_space :: "char \<Rightarrow> bool" where
  "is_space c =
     (let n = (of_char c :: nat)
      in (9 \<le> n \<and> n \<le> 13) \<or> (28 \<le> n \<and> n \<le> 32) \<or> n = 133 \<or> n = 160)"

definition strip :: "string \<Rightarrow> string" where
  "strip s = rev (dropWhile is_space (rev (dropWhile is_space s)))"

text \<open>
  \<open>str.lower()\<close> on the code points below 256: the upper-case letters are \<open>A\<close> to \<open>Z\<close>
  (65 to 90) and 192 to 222 without the multiplication sign 215; each maps to the code point
  32 above it.
\<close>

definition lower_char :: "char \<Rightarrow> char" where
  "lower_char c =
     (let n = (of_char c :: nat)
      in if (65 \<le> n \<and> n \<le> 90) \<or> (192 \<le> n \<and> n \<le> 222 \<and> n \<noteq> 215)
         then char_of (n + 32) else c)"

definition lower :: "string \<Rightarrow> string" where
  "lower s = map lower_char s"

subsection \<open>Column lookup\<close>

text \<open>
  \<open>col\<close> raises \<open>KeyError\<close> with the name that was looked for and the columns of the frame;
  the cast of the customer identifiers to \<open>Int64\<close> raises \<open>TypeError\<close>; SQLite, with
  foreign keys enforced, refuses a fact row whose key is in no dimension table. Each ends the
  run.
\<close>

datatype error =
    MissingColumn string "string list"
  | UnsafeIntCast
  | ForeignKeyViolation

fun find_col :: "string \<Rightarrow> string list \<Rightarrow> string option" where
  "find_col target [] = None"
| "find_col target (c # cs) =
     (if lower (strip c) = target then Some c else find_col target cs)"

definition col :: "string list \<Rightarrow> string \<Rightarrow> error + string" where
  "col df_columns name =
     (case find_col (lower (strip name)) df_columns of
        Some c \<Rightarrow> Inr c
      | None \<Rightarrow> Inl (MissingColumn name df_columns))"

subsection \<open>Numbers and their rendering\<close>

text \<open>
  A finite double is modelled by the rational number it denotes. \<open>round_double\<close> rounds a
  rational to the nearest number with a 53-bit significand, ties to even, as IEEE arithmetic
  does after every operation; the exponent is unbounded here, so overflow to infinity and
  subnormal numbers are outside the model. For a positive \<open>x\<close> the exponent \<open>e\<close> is chosen
  with \<open>2 ^ 52 \<le> x / 2 ^ e \<le> 2 ^ 53\<close>.
\<close>

fun bit_length :: "nat \<Rightarrow> nat" where
  "bit_length n = (if n = 0 then 0 else Suc (bit_length (n div 2)))"

definition pow2 :: "int \<Rightarrow> rat" where
  "pow2 e = (if 0 \<le> e then 2 ^ nat e else 1 / 2 ^ nat (- e))"

definition round_half_even :: "rat \<Rightarrow> int" where
  "round_half_even x =
     (let f = \<lfloor>x\<rfloor>; d = x - of_int f
      in if d < 1 / 2 then f
         else if 1 / 2 < d then f + 1
         else if even f then f else f + 1)"

definition binary_exponent :: "rat \<Rightarrow> int" where
  "binary_exponent x =
     (if 1 \<le> x then int (bit_length (nat \<lfloor>x\<rfloor>)) - 53
      else - int (bit_length (nat \<lfloor>1 / x\<rfloor>)) - 52)"

definition round_double :: "rat \<Rightarrow> rat" where
  "round_double x =
     (if x = 0 then 0
      else let a = \<bar>x\<bar>; e = binary_exponent a;
               m = of_int (round_half_even (a / pow2 e)) * pow2 e
           in if x < 0 then - m else m)"

text \<open>
  \<open>astype(int)\<close> casts a float column to \<open>int64\<close>. The cast truncates toward zero. It does
  not refuse a value whose integer part is outside the range of \<open>int64\<close>: numpy leaves the
  conversion to the processor, and on x86-64, which is the platform modelled here, the result
  is then \<open>- 2 ^ 63\<close>. An infinite quantity, on which the cast raises, is outside the model.
\<close>

definition trunc :: "rat \<Rightarrow> int" where
  "trunc x = (if 0 \<le> x then \<lfloor>x\<rfloor> else \<lceil>x\<rceil>)"

definition astype_int :: "rat \<Rightarrow> int" where
  "astype_int x =
     (let i = trunc x in if - (2 ^ 63) \<le> i \<and> i < 2 ^ 63 then i else - (2 ^ 63))"

text \<open>\<open>str\<close> of a Python integer, and zero padding as \<open>strftime\<close> does it.\<close>

definition digit_char :: "nat \<Rightarrow> char" where
  "digit_char d = char_of (48 + d)"

fun digits :: "nat \<Rightarrow> string" where
  "digits n = (if n < 10 then [digit_char n] else digits (n div 10) @ [digit_char (n mod 10)])"

definition show_int :: "int \<Rightarrow> string" where
  "show_int i = (if i < 0 then CHR ''-'' # digits (nat (- i)) else digits (nat i))"

definition zero_pad :: "nat \<Rightarrow> nat \<Rightarrow> string" where
  "zero_pad width n = replicate (width - length (digits n)) CHR ''0'' @ digits n"

subsection \<open>The data frame\<close>

text \<open>
  pandas parses the cells; the script only chooses which conversion it applies to which
  column. A cell is therefore given by what the three conversions the script uses return on
  it: \<open>astype(str)\<close>, \<open>pd.to_numeric(errors="coerce")\<close> (\<open>None\<close> is NaN; a finite value is
  the rational the double denotes; infinities are outside the model) and
  \<open>pd.to_datetime(errors="coerce")\<close> (\<open>None\<close> is NaT). A row maps the name of a column to
  its cell. That \<open>astype(str)\<close> returns a string for every cell, also for a missing one
  (\<open>nan\<close>), holds for pandas before version 3, which is the version modelled.
\<close>

record timestamp =
  ts_year :: nat
  ts_month :: nat
  ts_day :: nat
  ts_hour :: nat
  ts_minute :: nat
  ts_second :: nat

record cell =
  as_str :: string
  to_numeric :: "rat option"
  to_datetime :: "timestamp option"

type_synonym row = "string \<Rightarrow> cell"

record data_frame =
  columns :: "string list"
  frame_rows :: "row list"

record column_names =
  InvoiceCol :: string
  StockCodeCol :: string
  DescriptionCol :: string
  QuantityCol :: string
  InvoiceDateCol :: string
  PriceCol :: string
  CustomerIdCol :: string
  CountryCol :: string

text \<open>Lines 41 to 48: the eight lookups, in the order of the script; the first miss raises.\<close>

definition bind :: "error + 'a \<Rightarrow> ('a \<Rightarrow> error + 'b) \<Rightarrow> error + 'b" where
  "bind m f = (case m of Inl e \<Rightarrow> Inl e | Inr x \<Rightarrow> f x)"

definition exact_mapping :: "string list \<Rightarrow> error + column_names" where
  "exact_mapping cs =
     bind (col cs ''Invoice'') (\<lambda>invoice.
     bind (col cs ''StockCode'') (\<lambda>stock_code.
     bind (col cs ''Description'') (\<lambda>description.
     bind (col cs ''Quantity'') (\<lambda>quantity.
     bind (col cs ''InvoiceDate'') (\<lambda>invoice_date.
     bind (col cs ''Price'') (\<lambda>price.
     bind (col cs ''Customer ID'') (\<lambda>customer_id.
     bind (col cs ''Country'') (\<lambda>country.
       Inr \<lparr>InvoiceCol = invoice, StockCodeCol = stock_code, DescriptionCol = description,
            QuantityCol = quantity, InvoiceDateCol = invoice_date, PriceCol = price,
            CustomerIdCol = customer_id, CountryCol = country\<rparr>))))))))"

subsection \<open>Cleaning\<close>

text \<open>
  Lines 52 to 61 filter the frame three times. A row that passes is kept together with the
  parsed values of its date, quantity and price columns.
\<close>

record parsed_row =
  source :: row
  InvoiceDate :: timestamp
  Quantity :: rat
  Price :: rat

definition parse_row :: "column_names \<Rightarrow> row \<Rightarrow> parsed_row option" where
  "parse_row cols r =
     (case to_datetime (r (InvoiceDateCol cols)) of
        None \<Rightarrow> None \<comment> \<open>line 53: \<open>notna()\<close> on the date\<close>
      | Some ts \<Rightarrow>
          (case (to_numeric (r (QuantityCol cols)), to_numeric (r (PriceCol cols))) of
             (Some q, Some p) \<Rightarrow>
               if q \<noteq> 0 \<and> 0 < p \<comment> \<open>line 61\<close>
               then Some \<lparr>source = r, InvoiceDate = ts, Quantity = q, Price = p\<rparr>
               else None
           | _ \<Rightarrow> None \<comment> \<open>line 58: \<open>notna()\<close> on quantity and price\<close>))"

definition filter_rows :: "column_names \<Rightarrow> row list \<Rightarrow> parsed_row list" where
  "filter_rows cols rs = List.map_filter (parse_row cols) rs"

text \<open>
  Lines 71 to 73. \<open>astype("Int64")\<close> converts the whole column or raises: pandas casts the
  values that are not NaN to \<open>int64\<close> and raises \<open>TypeError\<close> (cannot safely cast) unless
  every one of them is unchanged by the cast. \<open>astype(str)\<close> renders a missing value of
  the \<open>Int64\<close> column as the string \<open><NA>\<close>, which line 73 replaces. This is the behaviour
  of pandas before version 3, the one modelled here; the repository pins no version, and
  from version 3 on \<open>astype(str)\<close> leaves a missing value missing, so that line 73 would not
  replace it.
\<close>

definition int64_safe :: "rat \<Rightarrow> bool" where
  "int64_safe x \<longleftrightarrow> of_int \<lfloor>x\<rfloor> = x \<and> - (2 ^ 63) \<le> x \<and> x < 2 ^ 63"

definition astype_Int64 :: "rat option list \<Rightarrow> error + int option list" where
  "astype_Int64 xs =
     (if list_all (\<lambda>v. case v of None \<Rightarrow> True | Some x \<Rightarrow> int64_safe x) xs
      then Inr (map (map_option floor) xs)
      else Inl UnsafeIntCast)"

definition int64_str :: "int option \<Rightarrow> string" where
  "int64_str v = (case v of None \<Rightarrow> ''<NA>'' | Some i \<Rightarrow> show_int i)"

definition guest_if_missing :: "string \<Rightarrow> string" where
  "guest_if_missing s = (if s \<in> set [''<NA>'', ''nan'', ''None''] then ''GUEST'' else s)"

definition customer_ids :: "column_names \<Rightarrow> parsed_row list \<Rightarrow> error + string list" where
  "customer_ids cols df =
     bind (astype_Int64 (map (\<lambda>r. to_numeric (source r (CustomerIdCol cols))) df))
       (\<lambda>ids. Inr (map (\<lambda>v. guest_if_missing (strip (int64_str v))) ids))"

text \<open>
  Lines 76 to 91: the derived columns. A pandas timestamp lies between the years 1677 and
  2262, so \<open>%Y\<close> has four digits; \<open>%b\<close> is the month's abbreviation in the C locale.
\<close>

definition month_abbr :: "nat \<Rightarrow> string" where
  "month_abbr m =
     (if 1 \<le> m \<and> m \<le> 12
      then [''Jan'', ''Feb'', ''Mar'', ''Apr'', ''May'', ''Jun'',
            ''Jul'', ''Aug'', ''Sep'', ''Oct'', ''Nov'', ''Dec''] ! (m - 1)
      else [])"

definition strftime_date :: "timestamp \<Rightarrow> string" where
  "strftime_date ts =
     zero_pad 4 (ts_year ts) @ ''-'' @ zero_pad 2 (ts_month ts) @ ''-'' @ zero_pad 2 (ts_day ts)"

definition strftime_datetime :: "timestamp \<Rightarrow> string" where
  "strftime_datetime ts =
     strftime_date ts @ '' '' @ zero_pad 2 (ts_hour ts) @ '':'' @ zero_pad 2 (ts_minute ts)
       @ '':'' @ zero_pad 2 (ts_second ts)"

record cleaned =
  invoice_no :: string
  invoice_datetime :: string
  full_date :: string
  year :: int
  month :: int
  month_name :: string
  quarter :: int
  stock_code :: string
  description :: string
  country :: string
  customer_id :: string
  quantity :: int
  unit_price :: rat
  revenue :: rat
  is_return :: int

definition derive :: "column_names \<Rightarrow> parsed_row \<Rightarrow> string \<Rightarrow> cleaned" where
  "derive cols r cid =
     (let ts = InvoiceDate r;
          m = int (ts_month ts);
          qty = astype_int (Quantity r)
      in \<lparr>invoice_no = strip (as_str (source r (InvoiceCol cols))),
          invoice_datetime = strftime_datetime ts,
          full_date = strftime_date ts,
          year = int (ts_year ts),
          month = m,
          month_name = month_abbr (ts_month ts),
          quarter = (m - 1) div 3 + 1,
          stock_code = strip (as_str (source r (StockCodeCol cols))),
          description = strip (as_str (source r (DescriptionCol cols))),
          country = strip (as_str (source r (CountryCol cols))),
          customer_id = cid,
          quantity = qty,
          unit_price = Price r,
          revenue = round_double (round_double (of_int qty) * Price r),
          is_return = (if qty < 0 then 1 else 0)\<rparr>)"

definition clean :: "column_names \<Rightarrow> row list \<Rightarrow> error + cleaned list" where
  "clean cols rs =
     (let df = filter_rows cols rs
      in bind (customer_ids cols df) (\<lambda>ids. Inr (map2 (derive cols) df ids)))"

subsection \<open>SQLite tables\<close>

text \<open>
  Every table of the schema has an \<open>INTEGER PRIMARY KEY AUTOINCREMENT\<close>. A table is the list
  of its rows with their keys, in insertion order, and the largest key handed out so far
  (\<open>sqlite_sequence\<close>). \<open>INSERT OR IGNORE\<close> takes the next key first and then skips the row if
  it collides with a row of the table on the \<open>UNIQUE\<close> columns, so a skipped row leaves a
  gap in the keys.
\<close>

record 'a table =
  table_rows :: "(int \<times> 'a) list"
  seq :: int

definition create_table :: "'a table" where
  "create_table = \<lparr>table_rows = [], seq = 0\<rparr>"

definition insert_or_ignore :: "('a \<Rightarrow> 'u) \<Rightarrow> 'a table \<Rightarrow> 'a \<Rightarrow> 'a table" where
  "insert_or_ignore uniq t v =
     (let k = seq t + 1
      in if uniq v \<in> set (map (\<lambda>(_, w). uniq w) (table_rows t))
         then t\<lparr>seq := k\<rparr>
         else \<lparr>table_rows = table_rows t @ [(k, v)], seq = k\<rparr>)"

definition insert_select :: "('a \<Rightarrow> 'u) \<Rightarrow> 'a table \<Rightarrow> 'a list \<Rightarrow> 'a table" where
  "insert_select uniq t vs = foldl (insert_or_ignore uniq) t vs"

text \<open>A plain \<open>INSERT\<close> into a table without \<open>UNIQUE\<close> columns, as \<open>to_sql\<close> issues it.\<close>

definition insert_all :: "'a table \<Rightarrow> 'a list \<Rightarrow> 'a table" where
  "insert_all t vs =
     foldl (\<lambda>t v. \<lparr>table_rows = table_rows t @ [(seq t + 1, v)], seq = seq t + 1\<rparr>) t vs"

text \<open>\<open>DataFrame.drop_duplicates()\<close> keeps the first occurrence of every row.\<close>

fun drop_duplicates_from :: "'a list \<Rightarrow> 'a list \<Rightarrow> 'a list" where
  "drop_duplicates_from seen [] = []"
| "drop_duplicates_from seen (x # xs) =
     (if x \<in> set seen then drop_duplicates_from seen xs
      else x # drop_duplicates_from (x # seen) xs)"

definition drop_duplicates :: "'a list \<Rightarrow> 'a list" where
  "drop_duplicates xs = drop_duplicates_from [] xs"

subsection \<open>Loading the dimensions\<close>

type_synonym date_row = "string \<times> int \<times> int \<times> string \<times> int"

record dimensions =
  dim_customer :: "string table"
  dim_product :: "(string \<times> string) table"
  dim_country :: "string table"
  dim_date :: "date_row table"

definition load_dimensions :: "cleaned list \<Rightarrow> dimensions" where
  "load_dimensions df =
     \<lparr>dim_customer =
        insert_select (\<lambda>c. c) create_table (drop_duplicates (map customer_id df)),
      dim_product =
        insert_select (\<lambda>p. p) create_table
          (drop_duplicates (map (\<lambda>r. (stock_code r, description r)) df)),
      dim_country =
        insert_select (\<lambda>c. c) create_table (drop_duplicates (map country df)),
      dim_date =
        insert_select fst create_table
          (drop_duplicates
             (map (\<lambda>r. (full_date r, year r, month r, month_name r, quarter r)) df))\<rparr>"

subsection \<open>Loading the fact table\<close>

text \<open>
  Lines 193 to 196 read the key and the natural key of every dimension row back. A left
  merge keeps every left row, once for each right row with the same key, and once with a
  missing value if there is none.
\<close>

definition merge_left :: "('a \<Rightarrow> 'k) \<Rightarrow> (int \<times> 'k) list \<Rightarrow> 'a list \<Rightarrow> ('a \<times> int option) list" where
  "merge_left on right left =
     concat (map (\<lambda>x. case filter (\<lambda>(_, n). n = on x) right of
                          [] \<Rightarrow> [(x, None)]
                        | ms \<Rightarrow> map (\<lambda>(k, _). (x, Some k)) ms) left)"

record key_frames =
  date_keys :: "(int \<times> string) list"
  customer_keys :: "(int \<times> string) list"
  country_keys :: "(int \<times> string) list"
  product_keys :: "(int \<times> string \<times> string) list"

definition read_keys :: "dimensions \<Rightarrow> key_frames" where
  "read_keys d =
     \<lparr>date_keys = map (\<lambda>(k, r). (k, fst r)) (table_rows (dim_date d)),
      customer_keys = table_rows (dim_customer d),
      country_keys = table_rows (dim_country d),
      product_keys = table_rows (dim_product d)\<rparr>"

record fact =
  line :: cleaned
  date_key :: "int option"
  customer_key :: "int option"
  country_key :: "int option"
  product_key :: "int option"

definition merge_keys :: "key_frames \<Rightarrow> cleaned list \<Rightarrow> fact list" where
  "merge_keys ks df =
     map (\<lambda>((((r, d), cu), co), p).
            \<lparr>line = r, date_key = d, customer_key = cu, country_key = co, product_key = p\<rparr>)
       (merge_left (\<lambda>(((r, _), _), _). (stock_code r, description r)) (product_keys ks)
         (merge_left (\<lambda>((r, _), _). country r) (country_keys ks)
           (merge_left (\<lambda>(r, _). customer_id r) (customer_keys ks)
             (merge_left full_date (date_keys ks) df))))"

text \<open>Lines 222 to 224: the number of missing values in each key column.\<close>

record missing_keys =
  missing_date_key :: nat
  missing_customer_key :: nat
  missing_country_key :: nat
  missing_product_key :: nat

definition isna_sum :: "fact list \<Rightarrow> missing_keys" where
  "isna_sum fs =
     \<lparr>missing_date_key = length (filter (\<lambda>f. date_key f = None) fs),
      missing_customer_key = length (filter (\<lambda>f. customer_key f = None) fs),
      missing_country_key = length (filter (\<lambda>f. country_key f = None) fs),
      missing_product_key = length (filter (\<lambda>f. product_key f = None) fs)\<rparr>"

text \<open>What the run prints that depends on the data.\<close>

datatype message =
    Warning_missing_keys missing_keys
  | Fact_sales_rows nat
  | Returns "(int \<times> nat) list"

definition missing_warning :: "missing_keys \<Rightarrow> message list" where
  "missing_warning m =
     (if 0 < missing_date_key m \<or> 0 < missing_customer_key m
         \<or> 0 < missing_country_key m \<or> 0 < missing_product_key m
      then [Warning_missing_keys m] else [])"

record sale =
  sale_invoice_no :: string
  sale_invoice_datetime :: string
  sale_date_key :: "int option"
  sale_customer_key :: "int option"
  sale_product_key :: "int option"
  sale_country_key :: "int option"
  sale_quantity :: int
  sale_unit_price :: rat
  sale_revenue :: rat
  sale_is_return :: int

definition fact_out :: "fact \<Rightarrow> sale" where
  "fact_out f =
     \<lparr>sale_invoice_no = invoice_no (line f),
      sale_invoice_datetime = invoice_datetime (line f),
      sale_date_key = date_key f,
      sale_customer_key = customer_key f,
      sale_product_key = product_key f,
      sale_country_key = country_key f,
      sale_quantity = quantity (line f),
      sale_unit_price = unit_price (line f),
      sale_revenue = revenue (line f),
      sale_is_return = is_return (line f)\<rparr>"

text \<open>
  Lines 146 to 149 with \<open>PRAGMA foreign_keys = ON\<close>: a key that is not NULL must be the key
  of a row of the table it refers to.
\<close>

definition references :: "int option \<Rightarrow> 'a table \<Rightarrow> bool" where
  "references k t = (case k of None \<Rightarrow> True | Some i \<Rightarrow> i \<in> set (map fst (table_rows t)))"

definition foreign_keys_ok :: "dimensions \<Rightarrow> sale \<Rightarrow> bool" where
  "foreign_keys_ok d s \<longleftrightarrow>
     references (sale_date_key s) (dim_date d) \<and>
     references (sale_customer_key s) (dim_customer d) \<and>
     references (sale_product_key s) (dim_product d) \<and>
     references (sale_country_key s) (dim_country d)"

definition to_sql_fact_sales :: "dimensions \<Rightarrow> sale list \<Rightarrow> error + sale table" where
  "to_sql_fact_sales d ss =
     (if list_all (foreign_keys_ok d) ss then Inr (insert_all create_table ss)
      else Inl ForeignKeyViolation)"

text \<open>Lines 246 and 247: \<open>COUNT(*)\<close>, and the counts grouped by \<open>is_return\<close>.\<close>

definition group_count :: "int list \<Rightarrow> (int \<times> nat) list" where
  "group_count vs = map (\<lambda>v. (v, length (filter (\<lambda>w. w = v) vs))) (sort (remdups vs))"

definition sanity_checks :: "sale table \<Rightarrow> message list" where
  "sanity_checks t =
     [Fact_sales_rows (length (table_rows t)),
      Returns (group_count (map (\<lambda>(_, s). sale_is_return s) (table_rows t)))]"

subsection \<open>The run\<close>

record warehouse =
  dims :: dimensions
  fact_sales :: "sale table"
  printed :: "message list"

text \<open>
  Lines 190 to 249 for given dimension tables: merge the keys, warn, load, count.
\<close>

definition load_facts :: "dimensions \<Rightarrow> cleaned list \<Rightarrow> error + warehouse" where
  "load_facts d df =
     (let fs = merge_keys (read_keys d) df;
          warning = missing_warning (isna_sum fs)
      in bind (to_sql_fact_sales d (map fact_out fs))
           (\<lambda>t. Inr \<lparr>dims = d, fact_sales = t, printed = warning @ sanity_checks t\<rparr>))"

definition build :: "cleaned list \<Rightarrow> error + warehouse" where
  "build df = load_facts (load_dimensions df) df"

definition main :: "data_frame \<Rightarrow> error + warehouse" where
  "main df =
     bind (exact_mapping (columns df)) (\<lambda>cols.
     bind (clean cols (frame_rows df)) build)"

subsection \<open>Notions used in the proofs\<close>

text \<open>
  The invariant of a table filled by \<open>INSERT OR IGNORE\<close>: keys and \<open>UNIQUE\<close> values occur
  once, and every key lies between 1 and the sequence value.
\<close>

definition well_keyed :: "('a \<Rightarrow> 'u) \<Rightarrow> 'a table \<Rightarrow> bool" where
  "well_keyed uniq t \<longleftrightarrow>
     distinct (map fst (table_rows t)) \<and>
     distinct (map (\<lambda>(_, w). uniq w) (table_rows t)) \<and> 0 \<le> seq t \<and>
     list_all (\<lambda>(k, _). 0 < k \<and> k \<le> seq t) (table_rows t)"

text \<open>The key a frame of keys holds for a natural key, if any.\<close>

definition key_of :: "(int \<times> 'k) list \<Rightarrow> 'k \<Rightarrow> int option" where
  "key_of frame n = map_of (map prod.swap frame) n"

definition resolved :: "key_frames \<Rightarrow> cleaned \<Rightarrow> fact" where
  "resolved ks r =
     \<lparr>line = r,
      date_key = key_of (date_keys ks) (full_date r),
      customer_key = key_of (customer_keys ks) (customer_id r),
      country_key = key_of (country_keys ks) (country r),
      product_key = key_of (product_keys ks) (stock_code r, description r)\<rparr>"

text \<open>A fact row none of whose four keys is missing.\<close>

definition all_keys_found :: "fact \<Rightarrow> bool" where
  "all_keys_found f \<longleftrightarrow>
     date_key f \<noteq> None \<and> customer_key f \<noteq> None \<and> country_key f \<noteq> None \<and>
     product_key f \<noteq> None"


subsection \<open>Example inputs\<close>

text \<open>
  The header of the CSV file as the script's first comment gives it, and rows over it. Of
  every cell only the conversion that the script applies to its column is filled in.
\<close>

definition header :: "string list" where
  "header = [''Invoice'', ''StockCode'', ''Description'', ''Quantity'', ''InvoiceDate'',
             ''Price'', ''Customer ID'', ''Country'']"

definition header_names :: column_names where
  "header_names =
     \<lparr>InvoiceCol = ''Invoice'', StockCodeCol = ''StockCode'', DescriptionCol = ''Description'',
      QuantityCol = ''Quantity'', InvoiceDateCol = ''InvoiceDate'', PriceCol = ''Price'',
      CustomerIdCol = ''Customer ID'', CountryCol = ''Country''\<rparr>"

definition text_cell :: "string \<Rightarrow> cell" where
  "text_cell s = \<lparr>as_str = s, to_numeric = None, to_datetime = None\<rparr>"

definition numeric_cell :: "rat option \<Rightarrow> cell" where
  "numeric_cell x = \<lparr>as_str = [], to_numeric = x, to_datetime = None\<rparr>"

definition datetime_cell :: "timestamp option \<Rightarrow> cell" where
  "datetime_cell t = \<lparr>as_str = [], to_numeric = None, to_datetime = t\<rparr>"

definition example_row ::
  "string \<Rightarrow> string \<Rightarrow> string \<Rightarrow> rat option \<Rightarrow> timestamp option \<Rightarrow> rat option \<Rightarrow> rat option
     \<Rightarrow> string \<Rightarrow> row" where
  "example_row invoice stock descr qty date price customer ctry =
     (\<lambda>name.
        if name = ''Invoice'' then text_cell invoice
        else if name = ''StockCode'' then text_cell stock
        else if name = ''Description'' then text_cell descr
        else if name = ''Quantity'' then numeric_cell qty
        else if name = ''InvoiceDate'' then datetime_cell date
        else if name = ''Price'' then numeric_cell price
        else if name = ''Customer ID'' then numeric_cell customer
        else text_cell ctry)"

definition morning :: timestamp where
  "morning = \<lparr>ts_year = 2010, ts_month = 12, ts_day = 1, ts_hour = 8, ts_minute = 26,
              ts_second = 0\<rparr>"

definition lantern_row :: row where
  "lantern_row =
     example_row ''536365'' ''71053'' ''WHITE METAL LANTERN'' (Some 6) (Some morning)
       (Some (round_double (339 / 100))) (Some 17850) ''United Kingdom''"

definition lantern :: cleaned where
  "lantern =
     \<lparr>invoice_no = ''536365'', invoice_datetime = ''2010-12-01 08:26:00'',
      full_date = ''2010-12-01'', year = 2010, month = 12, month_name = ''Dec'', quarter = 4,
      stock_code = ''71053'', description = ''WHITE METAL LANTERN'',
      country = ''United Kingdom'', customer_id = ''17850'', quantity = 6,
      unit_price = round_double (339 / 100), revenue = round_double (2034 / 100),
      is_return = 0\<rparr>"


definition lantern_frame :: data_frame where
  "lantern_frame = \<lparr>columns = header, frame_rows = [lantern_row]\<rparr>"

text \<open>
  Variations of the row: a return without customer identifier, the same stock code under
  another description, a fractional quantity, and customer identifiers that are not
  integers (12345.5, and the double nearest to 12345.7).
\<close>

definition return_row :: row where
  "return_row =
     example_row ''C536379'' ''71053'' ''WHITE METAL LANTERN'' (Some (- 2)) (Some morning)
       (Some (round_double (339 / 100))) None ''United Kingdom''"

definition relabelled_row :: row where
  "relabelled_row =
     example_row ''536366'' ''71053'' ''WHITE MOROCCAN METAL LANTERN'' (Some 1) (Some morning)
       (Some (round_double (339 / 100))) (Some 12345) ''United Kingdom''"

definition half_row :: row where
  "half_row =
     example_row ''536365'' ''71053'' ''WHITE METAL LANTERN'' (Some (1 / 2)) (Some morning)
       (Some (round_double (339 / 100))) (Some 17850) ''United Kingdom''"

definition fractional_id_row :: row where
  "fractional_id_row =
     example_row ''536367'' ''71053'' ''WHITE METAL LANTERN'' (Some 6) (Some morning)
       (Some (round_double (339 / 100))) (Some (24691 / 2)) ''United Kingdom''"

definition decimal_id_row :: row where
  "decimal_id_row =
     example_row ''536368'' ''71053'' ''WHITE METAL LANTERN'' (Some 6) (Some morning)
       (Some (round_double (339 / 100))) (Some (round_double (123457 / 10))) ''United Kingdom''"

text \<open>A row that line 61 drops, with quantity 0, whose customer identifier is 12345.5.\<close>

definition unsold_row :: row where
  "unsold_row =
     example_row ''536369'' ''71053'' ''WHITE METAL LANTERN'' (Some 0) (Some morning)
       (Some (round_double (339 / 100))) (Some (24691 / 2)) ''United Kingdom''"





section \<open>Evaluation\<close>

text \<open>
  The recursive functions over numbers are unfolded on numerals only, and the floor of a
  quotient of numerals is computed by integer division.
\<close>

declare bit_length.simps [simp del]

declare digits.simps [simp del]

lemma bit_length_numeral:
  "bit_length (numeral n) = Suc (bit_length (numeral n div 2))"
  "bit_length 0 = 0" "bit_length 1 = 1" "bit_length (Suc 0) = Suc 0"
  by (subst bit_length.simps, simp)+

lemma floor_rat_numeral:
  "\<lfloor>numeral a / numeral b :: rat\<rfloor> = numeral a div numeral b"
  "\<lfloor>1 / numeral b :: rat\<rfloor> = 1 div numeral b"
  "\<lfloor>- (numeral a / numeral b) :: rat\<rfloor> = - numeral a div numeral b"
    apply (metis floor_divide_of_int_eq of_int_numeral)
   apply (metis floor_divide_of_int_eq of_int_numeral of_int_1)
  apply (metis divide_minus_left floor_divide_of_int_eq of_int_neg_numeral of_int_numeral)
  done

lemma digits_numeral:
  "digits (numeral n) =
     (if numeral n < (10::nat) then [digit_char (numeral n)]
      else digits (numeral n div 10) @ [digit_char (numeral n mod 10)])"
  "digits 0 = [digit_char 0]" "digits 1 = [digit_char 1]" "digits (Suc 0) = [digit_char 1]"
  by (subst digits.simps, simp)+

lemmas round_double_eval =
  round_double_def binary_exponent_def round_half_even_def pow2_def bit_length_numeral
  floor_rat_numeral Let_def

lemmas string_eval = lower_def strip_def is_space_def lower_char_def char_of_def bit_0 Let_def

lemmas render_eval = show_int_def zero_pad_def digits_numeral digit_char_def char_of_def bit_0

lemmas example_eval =
  example_row_def text_cell_def numeric_cell_def datetime_cell_def header_names_def

lemmas clean_eval =
  clean_def bind_def customer_ids_def astype_Int64_def int64_safe_def int64_str_def
  guest_if_missing_def derive_def strftime_datetime_def strftime_date_def month_abbr_def
  astype_int_def trunc_def filter_rows_def List.map_filter_def parse_row_def

lemmas build_eval =
  build_def load_facts_def load_dimensions_def read_keys_def merge_keys_def merge_left_def
  insert_select_def insert_or_ignore_def insert_all_def create_table_def drop_duplicates_def
  isna_sum_def missing_warning_def fact_out_def to_sql_fact_sales_def foreign_keys_ok_def
  references_def sanity_checks_def group_count_def

text \<open>The doubles of the examples: 3.39, 6 times 3.39, 20.34.\<close>

lemma round_double_price: "round_double (339 / 100) = 7633601368392991 / 2251799813685248"
  by (simp add: round_double_eval)

lemma round_double_revenue:
  "round_double (round_double 6 * round_double (339 / 100)) = round_double (2034 / 100)"
  by (simp add: round_double_eval)

lemma exact_mapping_header: "exact_mapping header = Inr header_names"
  by (simp add: exact_mapping_def col_def bind_def header_def header_names_def string_eval)

lemma clean_lantern_row: "clean header_names [lantern_row] = Inr [lantern]"
  by (simp add: clean_eval lantern_row_def lantern_def morning_def example_eval string_eval
      render_eval round_double_eval)


section \<open>Tables, duplicates and merges\<close>

lemma set_drop_duplicates_from: "set (drop_duplicates_from seen xs) = set xs - set seen"
  by (induction xs arbitrary: seen) auto

lemma distinct_drop_duplicates_from: "distinct (drop_duplicates_from seen xs)"
  by (induction xs arbitrary: seen) (auto simp: set_drop_duplicates_from)

lemma set_drop_duplicates: "set (drop_duplicates xs) = set xs"
  by (simp add: drop_duplicates_def set_drop_duplicates_from)

lemma distinct_drop_duplicates: "distinct (drop_duplicates xs)"
  by (simp add: drop_duplicates_def distinct_drop_duplicates_from)

lemma well_keyed_create: "well_keyed uniq create_table"
  by (simp add: well_keyed_def create_table_def)

lemma well_keyed_insert_or_ignore:
  assumes "well_keyed uniq t"
  shows "well_keyed uniq (insert_or_ignore uniq t v)"
proof (cases "uniq v \<in> set (map (\<lambda>(_, w). uniq w) (table_rows t))")
  case True
  then have "insert_or_ignore uniq t v = t\<lparr>seq := seq t + 1\<rparr>"
    by (simp add: insert_or_ignore_def)
  moreover have "well_keyed uniq (t\<lparr>seq := seq t + 1\<rparr>)"
    using assms by (fastforce simp: well_keyed_def list_all_iff)
  ultimately show ?thesis by simp
next
  case False
  then have eq: "insert_or_ignore uniq t v =
      \<lparr>table_rows = table_rows t @ [(seq t + 1, v)], seq = seq t + 1\<rparr>"
    by (simp add: insert_or_ignore_def Let_def)
  from assms have d1: "distinct (map fst (table_rows t))"
    and d2: "distinct (map (\<lambda>(_, w). uniq w) (table_rows t))"
    and pos: "0 \<le> seq t"
    and bound: "\<forall>(k, _) \<in> set (table_rows t). 0 < k \<and> k \<le> seq t"
    by (simp_all add: well_keyed_def list_all_iff)
  from bound have fresh: "seq t + 1 \<notin> fst ` set (table_rows t)"
    by fastforce
  have b': "\<forall>(k, _) \<in> set (table_rows t). 0 < k \<and> k \<le> seq t + 1"
    using bound by fastforce
  show ?thesis
    unfolding eq well_keyed_def list_all_iff
    using d1 d2 fresh False b' pos by simp
qed

lemma well_keyed_insert_select:
  "well_keyed uniq t \<Longrightarrow> well_keyed uniq (insert_select uniq t vs)"
  unfolding insert_select_def
  by (induction vs arbitrary: t) (simp_all add: well_keyed_insert_or_ignore)

lemma uniq_insert_or_ignore:
  "(\<lambda>(_, w). uniq w) ` set (table_rows (insert_or_ignore uniq t v)) =
     insert (uniq v) ((\<lambda>(_, w). uniq w) ` set (table_rows t))"
  unfolding insert_or_ignore_def Let_def by auto

lemma uniq_insert_select:
  "(\<lambda>(_, w). uniq w) ` set (table_rows (insert_select uniq t vs)) =
     uniq ` set vs \<union> (\<lambda>(_, w). uniq w) ` set (table_rows t)"
  unfolding insert_select_def
  by (induction vs arbitrary: t) (simp_all add: uniq_insert_or_ignore)

text \<open>A dimension table as the run fills it: from an empty table, without duplicates.\<close>

lemma dimension_table:
  fixes uniq :: "'a \<Rightarrow> 'u"
  defines "t \<equiv> insert_select uniq create_table"
  shows "distinct (map fst (table_rows (t vs)))"
    and "distinct (map (\<lambda>(_, w). uniq w) (table_rows (t vs)))"
    and "(\<lambda>(_, w). uniq w) ` set (table_rows (t vs)) = uniq ` set vs"
proof -
  have "well_keyed uniq (t vs)"
    unfolding t_def by (rule well_keyed_insert_select [OF well_keyed_create])
  then show "distinct (map fst (table_rows (t vs)))"
    and "distinct (map (\<lambda>(_, w). uniq w) (table_rows (t vs)))"
    by (simp_all add: well_keyed_def)
  show "(\<lambda>(_, w). uniq w) ` set (table_rows (t vs)) = uniq ` set vs"
    unfolding t_def by (simp add: uniq_insert_select create_table_def)
qed

lemma insert_all_snd:
  "map snd (table_rows (insert_all t vs)) = map snd (table_rows t) @ vs"
  unfolding insert_all_def
  by (induction vs arbitrary: t) simp_all

lemma filter_none:
  "a \<notin> snd ` set right \<Longrightarrow> filter (\<lambda>(_, n). n = a) right = []"
  by (induction right) auto

lemma key_of_none: "a \<notin> snd ` set right \<Longrightarrow> key_of right a = None"
  unfolding key_of_def by (induction right) auto

lemma key_of_Some: "key_of right a = Some k \<Longrightarrow> (k, a) \<in> set right"
  unfolding key_of_def by (induction right) (auto split: if_splits)

lemma key_of_found: "a \<in> snd ` set right \<Longrightarrow> \<exists>k. key_of right a = Some k"
  using key_of_none [of a right] unfolding key_of_def
  by (induction right) (auto split: if_splits)

lemma filter_unique_key:
  "distinct (map snd right) \<Longrightarrow>
     filter (\<lambda>(_, n). n = a) right =
       (case key_of right a of None \<Rightarrow> [] | Some k \<Rightarrow> [(k, a)])"
proof (induction right)
  case Nil
  show ?case by (simp add: key_of_def)
next
  case (Cons p right)
  obtain k n where p: "p = (k, n)" by (cases p)
  from Cons.prems have d: "distinct (map snd right)" and nin: "n \<notin> snd ` set right"
    by (simp_all add: p)
  show ?case
  proof (cases "n = a")
    case True
    have "filter (\<lambda>(_, n). n = a) (p # right) = [(k, a)]"
      using nin by (simp add: p True [symmetric] filter_none)
    moreover have "key_of (p # right) a = Some k"
      by (simp add: p True key_of_def)
    ultimately show ?thesis by (simp only: option.case)
  next
    case False
    have "filter (\<lambda>(_, n). n = a) (p # right) = filter (\<lambda>(_, n). n = a) right"
      using False by (simp add: p)
    moreover have "key_of (p # right) a = key_of right a"
      using False by (simp add: p key_of_def)
    ultimately show ?thesis using Cons.IH [OF d] by (simp only:)
  qed
qed

lemma merge_left_unique:
  assumes "distinct (map snd right)"
  shows "merge_left on right left = map (\<lambda>x. (x, key_of right (on x))) left"
proof -
  have "(case filter (\<lambda>(_, n). n = on x) right of
           [] \<Rightarrow> [(x, None)] | ms \<Rightarrow> map (\<lambda>(k, _). (x, Some k)) ms) =
        [(x, key_of right (on x))]" for x
    by (simp add: filter_unique_key [OF assms] split: option.splits)
  then show ?thesis
    unfolding merge_left_def by (induction left) simp_all
qed

lemma merge_left_key:
  assumes "(x, Some k) \<in> set (merge_left on right left)"
  shows "k \<in> fst ` set right"
proof -
  from assms obtain y where y: "y \<in> set left"
    and m: "(x, Some k) \<in> set (case filter (\<lambda>(_, n). n = on y) right of
              [] \<Rightarrow> [(y, None)] | ms \<Rightarrow> map (\<lambda>(k, _). (y, Some k)) ms)"
    unfolding merge_left_def by auto
  show ?thesis
  proof (cases "filter (\<lambda>(_, n). n = on y) right")
    case Nil
    with m show ?thesis by simp
  next
    case (Cons a as)
    with m have "(x, Some k) \<in> (\<lambda>(k, _). (y, Some k)) ` set (filter (\<lambda>(_, n). n = on y) right)"
      by simp
    then show ?thesis by force
  qed
qed


section \<open>Merging the keys\<close>

lemma merge_left_fst:
  assumes "(x, ko) \<in> set (merge_left on right left)"
  shows "x \<in> set left"
proof -
  from assms obtain y where y: "y \<in> set left"
    and m: "(x, ko) \<in> set (case filter (\<lambda>(_, n). n = on y) right of
              [] \<Rightarrow> [(y, None)] | ms \<Rightarrow> map (\<lambda>(k, _). (y, Some k)) ms)"
    unfolding merge_left_def by auto
  from m have "x = y"
    by (cases "filter (\<lambda>(_, n). n = on y) right") auto
  with y show ?thesis by simp
qed

lemma merge_left_references:
  assumes "(x, ko) \<in> set (merge_left on (table_rows t) left)"
  shows "references ko t"
proof (cases ko)
  case None
  then show ?thesis by (simp add: references_def)
next
  case (Some k)
  with assms have "k \<in> fst ` set (table_rows t)" by (auto dest: merge_left_key)
  with Some show ?thesis by (simp add: references_def)
qed

lemma merge_left_key_map:
  assumes "(x, Some k) \<in> set (merge_left on (map (\<lambda>(k, r). (k, f r)) right) left)"
  shows "k \<in> fst ` set right"
  using merge_left_key [OF assms] by force

lemma merge_keys_foreign_keys:
  assumes "f \<in> set (merge_keys (read_keys d) df)"
  shows "foreign_keys_ok d (fact_out f)"
proof -
  define m1 where "m1 = merge_left full_date (date_keys (read_keys d)) df"
  define m2 where "m2 = merge_left (\<lambda>(r, _). customer_id r) (customer_keys (read_keys d)) m1"
  define m3 where "m3 = merge_left (\<lambda>((r, _), _). country r) (country_keys (read_keys d)) m2"
  define m4 where "m4 = merge_left (\<lambda>(((r, _), _), _). (stock_code r, description r))
      (product_keys (read_keys d)) m3"
  from assms obtain r dk cu co p
    where f: "f = \<lparr>line = r, date_key = dk, customer_key = cu, country_key = co,
        product_key = p\<rparr>"
      and 4: "((((r, dk), cu), co), p) \<in> set m4"
    unfolding merge_keys_def m4_def m3_def m2_def m1_def by auto
  from 4 have 3: "(((r, dk), cu), co) \<in> set m3"
    unfolding m4_def by (rule merge_left_fst)
  then have 2: "((r, dk), cu) \<in> set m2"
    unfolding m3_def by (rule merge_left_fst)
  then have 1: "(r, dk) \<in> set m1"
    unfolding m2_def by (rule merge_left_fst)
  have "references p (dim_product d)"
    using 4 unfolding m4_def read_keys_def by (auto intro: merge_left_references)
  moreover have "references co (dim_country d)"
    using 3 unfolding m3_def read_keys_def by (auto intro: merge_left_references)
  moreover have "references cu (dim_customer d)"
    using 2 unfolding m2_def read_keys_def by (auto intro: merge_left_references)
  moreover have "references dk (dim_date d)"
  proof (cases dk)
    case None
    then show ?thesis by (simp add: references_def)
  next
    case (Some k)
    with 1 have "k \<in> fst ` set (table_rows (dim_date d))"
      unfolding m1_def read_keys_def by (auto dest: merge_left_key_map)
    with Some show ?thesis by (simp add: references_def)
  qed
  ultimately show ?thesis
    by (simp add: foreign_keys_ok_def fact_out_def f)
qed

lemma load_facts_result:
  "load_facts d df =
     Inr \<lparr>dims = d,
          fact_sales = insert_all create_table (map fact_out (merge_keys (read_keys d) df)),
          printed = missing_warning (isna_sum (merge_keys (read_keys d) df))
            @ sanity_checks
                (insert_all create_table (map fact_out (merge_keys (read_keys d) df)))\<rparr>"
  by (simp add: load_facts_def Let_def to_sql_fact_sales_def bind_def list_all_iff
      merge_keys_foreign_keys)

lemma merge_keys_unique:
  assumes "distinct (map snd (date_keys ks))" "distinct (map snd (customer_keys ks))"
    "distinct (map snd (country_keys ks))" "distinct (map snd (product_keys ks))"
  shows "merge_keys ks df = map (resolved ks) df"
  by (simp add: merge_keys_def merge_left_unique [OF assms(1)] merge_left_unique [OF assms(2)]
      merge_left_unique [OF assms(3)] merge_left_unique [OF assms(4)] resolved_def o_def)

lemma snd_table_rows: "map (\<lambda>(_, w). w) xs = map snd xs"
  by (simp add: case_prod_unfold)

lemma customer_keys_load:
  "distinct (map snd (customer_keys (read_keys (load_dimensions df))))"
  "snd ` set (customer_keys (read_keys (load_dimensions df))) = customer_id ` set df"
  using dimension_table(2) [of "\<lambda>c. c" "drop_duplicates (map customer_id df)"]
    dimension_table(3) [of "\<lambda>c. c" "drop_duplicates (map customer_id df)"]
  by (simp_all add: read_keys_def load_dimensions_def set_drop_duplicates case_prod_unfold)

lemma country_keys_load:
  "distinct (map snd (country_keys (read_keys (load_dimensions df))))"
  "snd ` set (country_keys (read_keys (load_dimensions df))) = country ` set df"
  using dimension_table(2) [of "\<lambda>c. c" "drop_duplicates (map country df)"]
    dimension_table(3) [of "\<lambda>c. c" "drop_duplicates (map country df)"]
  by (simp_all add: read_keys_def load_dimensions_def set_drop_duplicates case_prod_unfold)

lemma product_keys_load:
  "distinct (map snd (product_keys (read_keys (load_dimensions df))))"
  "snd ` set (product_keys (read_keys (load_dimensions df))) =
     (\<lambda>r. (stock_code r, description r)) ` set df"
  using dimension_table(2)
      [of "\<lambda>p. p" "drop_duplicates (map (\<lambda>r. (stock_code r, description r)) df)"]
    dimension_table(3)
      [of "\<lambda>p. p" "drop_duplicates (map (\<lambda>r. (stock_code r, description r)) df)"]
  by (simp_all add: read_keys_def load_dimensions_def set_drop_duplicates case_prod_unfold)

lemma date_keys_load:
  "distinct (map snd (date_keys (read_keys (load_dimensions df))))"
  "snd ` set (date_keys (read_keys (load_dimensions df))) = full_date ` set df"
  using dimension_table(2)
      [of fst "drop_duplicates
         (map (\<lambda>r. (full_date r, year r, month r, month_name r, quarter r)) df)"]
    dimension_table(3)
      [of fst "drop_duplicates
         (map (\<lambda>r. (full_date r, year r, month r, month_name r, quarter r)) df)"]
  by (simp_all add: read_keys_def load_dimensions_def set_drop_duplicates case_prod_unfold
      image_image o_def)

lemma merge_keys_load:
  "merge_keys (read_keys (load_dimensions df)) df =
     map (resolved (read_keys (load_dimensions df))) df"
  by (rule merge_keys_unique)
    (rule date_keys_load customer_keys_load country_keys_load product_keys_load)+

lemma main_build:
  "exact_mapping (columns df) = Inr cols \<Longrightarrow> clean cols (frame_rows df) = Inr recs \<Longrightarrow>
     main df = build recs"
  by (simp add: main_def bind_def)

lemma main_cases:
  assumes "main df = Inr w"
  obtains cols recs where "exact_mapping (columns df) = Inr cols"
    and "clean cols (frame_rows df) = Inr recs" and "build recs = Inr w"
  using assms by (auto simp: main_def bind_def split: sum.splits)

section \<open>What a run returns\<close>

lemma resolved_found:
  assumes "r \<in> set df"
  shows "all_keys_found (resolved (read_keys (load_dimensions df)) r)"
proof -
  let ?ks = "read_keys (load_dimensions df)"
  have "full_date r \<in> snd ` set (date_keys ?ks)"
    and "customer_id r \<in> snd ` set (customer_keys ?ks)"
    and "country r \<in> snd ` set (country_keys ?ks)"
    and "(stock_code r, description r) \<in> snd ` set (product_keys ?ks)"
    using assms
    by (simp_all only: date_keys_load customer_keys_load country_keys_load product_keys_load
        image_eqI)
  then show ?thesis
    by (auto simp: all_keys_found_def resolved_def dest!: key_of_found)
qed

lemma no_missing_keys:
  "list_all all_keys_found fs \<Longrightarrow> missing_warning (isna_sum fs) = []"
  by (simp add: missing_warning_def isna_sum_def all_keys_found_def list_all_iff
      filter_empty_conv)

lemma some_missing_keys:
  assumes "\<not> list_all all_keys_found fs"
  shows "missing_warning (isna_sum fs) = [Warning_missing_keys (isna_sum fs)]"
proof -
  from assms obtain f where f: "f \<in> set fs" and "\<not> all_keys_found f"
    by (auto simp: list_all_iff)
  then have "date_key f = None \<or> customer_key f = None \<or> country_key f = None
      \<or> product_key f = None"
    by (simp add: all_keys_found_def)
  with f have "filter (\<lambda>f. date_key f = None) fs \<noteq> []
      \<or> filter (\<lambda>f. customer_key f = None) fs \<noteq> []
      \<or> filter (\<lambda>f. country_key f = None) fs \<noteq> []
      \<or> filter (\<lambda>f. product_key f = None) fs \<noteq> []"
    unfolding filter_empty_conv by blast
  then show ?thesis
    by (simp add: missing_warning_def isna_sum_def)
qed

lemma sanity_checks_insert_all:
  "sanity_checks (insert_all create_table ss) =
     [Fact_sales_rows (length ss), Returns (group_count (map sale_is_return ss))]"
proof -
  let ?rows = "table_rows (insert_all create_table ss)"
  have s: "map snd ?rows = ss"
    by (simp add: insert_all_snd create_table_def)
  have "length ?rows = length (map snd ?rows)" by simp
  then have l: "length ?rows = length ss" by (simp only: s)
  have "map (\<lambda>(_, s). sale_is_return s) ?rows = map sale_is_return (map snd ?rows)"
    by (simp add: case_prod_unfold)
  then have "map (\<lambda>(_, s). sale_is_return s) ?rows = map sale_is_return ss"
    by (simp only: s)
  with l show ?thesis by (simp add: sanity_checks_def)
qed

text \<open>
  What a run builds from the cleaned records: the rows of \<open>fact_sales\<close> are the records with
  the keys the dimensions hold for them, and nothing is printed but the two counts.
\<close>

lemma build_result:
  "build recs =
     Inr \<lparr>dims = load_dimensions recs,
          fact_sales = insert_all create_table
            (map (\<lambda>r. fact_out (resolved (read_keys (load_dimensions recs)) r)) recs),
          printed = [Fact_sales_rows (length recs),
                     Returns (group_count (map is_return recs))]\<rparr>"
proof -
  let ?ks = "read_keys (load_dimensions recs)"
  have "list_all all_keys_found (map (resolved ?ks) recs)"
    by (simp add: list_all_iff resolved_found)
  then have w: "missing_warning (isna_sum (map (resolved ?ks) recs)) = []"
    by (rule no_missing_keys)
  have r: "map (\<lambda>x. sale_is_return (fact_out (resolved ?ks x))) recs = map is_return recs"
    by (simp add: fact_out_def resolved_def)
  show ?thesis
    unfolding build_def load_facts_result merge_keys_load w
    by (simp add: sanity_checks_insert_all r o_def)
qed

lemma stored_rows:
  "map snd (table_rows (insert_all create_table ss)) = ss"
  by (simp add: insert_all_snd create_table_def)

lemma main_lantern_frame: "main lantern_frame = build [lantern]"
  by (rule main_build [where cols = header_names])
    (simp_all add: lantern_frame_def exact_mapping_header clean_lantern_row)

lemma main_result:
  assumes "exact_mapping (columns df) = Inr cols" and "clean cols (frame_rows df) = Inr recs"
  shows "main df =
     Inr \<lparr>dims = load_dimensions recs,
          fact_sales = insert_all create_table
            (map (\<lambda>r. fact_out (resolved (read_keys (load_dimensions recs)) r)) recs),
          printed = [Fact_sales_rows (length recs),
                     Returns (group_count (map is_return recs))]\<rparr>"
  using main_build [OF assms] by (simp add: build_result)


section \<open>Rendering and cleaning\<close>

lemma digit_char_digit: "d < 10 \<Longrightarrow> digit_char d \<in> set ''0123456789''"
proof -
  assume "d < 10"
  then have "d = 0 \<or> d = 1 \<or> d = 2 \<or> d = 3 \<or> d = 4 \<or> d = 5 \<or> d = 6 \<or> d = 7 \<or> d = 8
      \<or> d = 9"
    by arith
  then show ?thesis
    by (elim disjE) (simp_all add: digit_char_def char_of_def bit_0)
qed

lemma digits_chars: "set (digits n) \<subseteq> set ''0123456789''"
proof (induction n rule: digits.induct)
  case (1 n)
  show ?case
  proof (cases "n < 10")
    case True
    then show ?thesis
      using digit_char_digit [of n] by (subst digits.simps) simp
  next
    case False
    then show ?thesis
      using 1 digit_char_digit [of "n mod 10"] by (subst digits.simps) simp
  qed
qed

lemma digits_nonempty: "digits n \<noteq> []"
  by (subst digits.simps) simp

lemma digit_no_space: "c \<in> set ''-0123456789'' \<Longrightarrow> \<not> is_space c"
  by (auto simp: is_space_def)

lemma dropWhile_id: "xs \<noteq> [] \<Longrightarrow> \<not> P (hd xs) \<Longrightarrow> dropWhile P xs = xs"
  by (cases xs) simp_all

lemma strip_id:
  assumes "s \<noteq> []" and "\<not> is_space (hd s)" and "\<not> is_space (last s)"
  shows "strip s = s"
proof -
  have 1: "dropWhile is_space s = s"
    using assms(1,2) by (rule dropWhile_id)
  have "rev s \<noteq> []" and "\<not> is_space (hd (rev s))"
    using assms(1,3) by (simp_all add: hd_rev)
  then have 2: "dropWhile is_space (rev s) = rev s"
    by (rule dropWhile_id)
  show ?thesis by (simp add: strip_def 1 2)
qed

lemma show_int_shape:
  "show_int i \<noteq> []" "hd (show_int i) \<in> set ''-0123456789''"
  "last (show_int i) \<in> set ''-0123456789''"
proof -
  have sub: "set ''0123456789'' \<subseteq> set ''-0123456789''"
    by auto
  have d: "hd (digits n) \<in> set ''-0123456789''" "last (digits n) \<in> set ''-0123456789''" for n
    using digits_chars [of n] sub hd_in_set [OF digits_nonempty, of n]
      last_in_set [OF digits_nonempty, of n]
    by blast+
  show "show_int i \<noteq> []"
    by (simp add: show_int_def digits_nonempty)
  show "hd (show_int i) \<in> set ''-0123456789''"
    using d(1) [of "nat i"] by (simp add: show_int_def)
  show "last (show_int i) \<in> set ''-0123456789''"
    using d(2) [of "nat i"] d(2) [of "nat (- i)"] by (simp add: show_int_def digits_nonempty)
qed

lemma strip_show_int: "strip (show_int i) = show_int i"
  by (intro strip_id show_int_shape digit_no_space)

lemma show_int_not_missing: "show_int i \<notin> set [''<NA>'', ''nan'', ''None'']"
  using show_int_shape(2) [of i] by auto

lemma normalise_id:
  "guest_if_missing (strip (int64_str (Some i))) = show_int i"
  "guest_if_missing (strip (int64_str None)) = ''GUEST''"
proof -
  show "guest_if_missing (strip (int64_str (Some i))) = show_int i"
    using show_int_not_missing [of i]
    by (simp add: guest_if_missing_def int64_str_def strip_show_int)
  show "guest_if_missing (strip (int64_str None)) = ''GUEST''"
    by (simp add: guest_if_missing_def int64_str_def strip_def is_space_def)
qed

lemma customer_ids_safe:
  assumes "\<forall>p\<in>set df. \<forall>x. to_numeric (source p (CustomerIdCol cols)) = Some x
      \<longrightarrow> int64_safe x"
  shows "customer_ids cols df =
     Inr (map (\<lambda>p. case to_numeric (source p (CustomerIdCol cols)) of
                       None \<Rightarrow> ''GUEST'' | Some x \<Rightarrow> show_int \<lfloor>x\<rfloor>) df)"
proof -
  have "astype_Int64 (map (\<lambda>r. to_numeric (source r (CustomerIdCol cols))) df) =
      Inr (map (map_option floor) (map (\<lambda>r. to_numeric (source r (CustomerIdCol cols))) df))"
    using assms by (auto simp: astype_Int64_def list_all_iff split: option.splits)
  then show ?thesis
    by (auto simp: customer_ids_def bind_def normalise_id split: option.splits)
qed

lemma customer_ids_unsafe:
  assumes "p \<in> set df" and "to_numeric (source p (CustomerIdCol cols)) = Some x"
    and "\<not> int64_safe x"
  shows "customer_ids cols df = Inl UnsafeIntCast"
proof -
  have "\<not> list_all (\<lambda>v. case v of None \<Rightarrow> True | Some x \<Rightarrow> int64_safe x)
      (map (\<lambda>r. to_numeric (source r (CustomerIdCol cols))) df)"
    using assms by (auto simp: list_all_iff intro!: bexI [of _ p])
  then show ?thesis
    by (simp add: customer_ids_def astype_Int64_def bind_def)
qed

lemma map2_same: "map2 f xs (map g xs) = map (\<lambda>x. f x (g x)) xs"
  by (induction xs) simp_all

lemma clean_safe:
  assumes "\<forall>p\<in>set (filter_rows cols rs). \<forall>x.
      to_numeric (source p (CustomerIdCol cols)) = Some x \<longrightarrow> int64_safe x"
  shows "clean cols rs =
     Inr (map (\<lambda>p. derive cols p
                 (case to_numeric (source p (CustomerIdCol cols)) of
                    None \<Rightarrow> ''GUEST'' | Some x \<Rightarrow> show_int \<lfloor>x\<rfloor>))
            (filter_rows cols rs))"
  by (simp add: clean_def Let_def customer_ids_safe [OF assms] bind_def map2_same)

lemma clean_unsafe:
  assumes "p \<in> set (filter_rows cols rs)"
    and "to_numeric (source p (CustomerIdCol cols)) = Some x" and "\<not> int64_safe x"
  shows "clean cols rs = Inl UnsafeIntCast"
  by (simp add: clean_def Let_def customer_ids_unsafe [OF assms] bind_def)

text \<open>The example rows after the three filters.\<close>

lemma parse_example_row:
  "parse_row header_names (example_row i s d (Some q) (Some t) (Some p) c n) =
     (if q \<noteq> 0 \<and> 0 < p
      then Some \<lparr>source = example_row i s d (Some q) (Some t) (Some p) c n, InvoiceDate = t,
                 Quantity = q, Price = p\<rparr>
      else None)"
  by (simp add: parse_row_def example_eval)

lemma price_positive: "0 < round_double (339 / 100)"
  by (simp add: round_double_price)

lemma example_customer:
  "to_numeric (example_row i s d q t p c n (CustomerIdCol header_names)) = c"
  "to_numeric (example_row i s d q t p c n ''Customer ID'') = c"
  "to_numeric (example_row i s d q t p c n ''Quantity'') = q"
  "to_numeric (example_row i s d q t p c n ''Price'') = p"
  by (simp_all add: example_eval)

lemmas filter_eval =
  filter_rows_def List.map_filter_def parse_example_row price_positive example_customer

lemma round_double_0: "round_double 0 = 0"
  by (simp add: round_double_def)

lemma single_row: "table_rows (insert_all create_table [x]) = [(1, x)]"
  by (simp add: insert_all_def create_table_def)

lemma clean_filter_rows:
  "filter_rows cols rs = filter_rows cols rs' \<Longrightarrow> clean cols rs = clean cols rs'"
  by (simp add: clean_def)


section \<open>Looking the columns up\<close>







section \<open>The claims\<close>

text \<open>
  C1. In the warehouse a run returns, every row of \<open>fact_sales\<close> (the rows the four merges
  produce, projected to the columns of the table) has a date, customer, product and country
  key that is not NULL and is the key of a row of the dimension table it refers to: the
  dimension tables were loaded from the natural keys of the very records that are merged.
\<close>

theorem referential_completeness:
  assumes "main df = Inr w" and "s \<in> snd ` set (table_rows (fact_sales w))"
  shows "\<exists>d c p n.
      sale_date_key s = Some d \<and> d \<in> fst ` set (table_rows (dim_date (dims w))) \<and>
      sale_customer_key s = Some c \<and> c \<in> fst ` set (table_rows (dim_customer (dims w))) \<and>
      sale_product_key s = Some p \<and> p \<in> fst ` set (table_rows (dim_product (dims w))) \<and>
      sale_country_key s = Some n \<and> n \<in> fst ` set (table_rows (dim_country (dims w)))"
proof -
  from assms(1) obtain cols recs where "exact_mapping (columns df) = Inr cols"
    and "clean cols (frame_rows df) = Inr recs" and "build recs = Inr w"
    by (rule main_cases)
  then have w: "w = \<lparr>dims = load_dimensions recs,
      fact_sales = insert_all create_table
        (map (\<lambda>r. fact_out (resolved (read_keys (load_dimensions recs)) r)) recs),
      printed = [Fact_sales_rows (length recs), Returns (group_count (map is_return recs))]\<rparr>"
    by (simp add: build_result)
  let ?d = "load_dimensions recs"
  let ?ks = "read_keys ?d"
  from assms(2) have "s \<in> set (map snd (table_rows (fact_sales w)))" by simp
  then obtain r where r: "r \<in> set recs" and s: "s = fact_out (resolved ?ks r)"
    unfolding w by (auto simp: stored_rows)
  from resolved_found [OF r] obtain d c p n
    where d: "key_of (date_keys ?ks) (full_date r) = Some d"
      and c: "key_of (customer_keys ?ks) (customer_id r) = Some c"
      and p: "key_of (product_keys ?ks) (stock_code r, description r) = Some p"
      and n: "key_of (country_keys ?ks) (country r) = Some n"
    by (auto simp: all_keys_found_def resolved_def)
  have "d \<in> fst ` set (table_rows (dim_date ?d))"
    using key_of_Some [OF d] by (force simp: read_keys_def)
  moreover have "c \<in> fst ` set (table_rows (dim_customer ?d))"
    using key_of_Some [OF c] by (force simp: read_keys_def)
  moreover have "p \<in> fst ` set (table_rows (dim_product ?d))"
    using key_of_Some [OF p] by (force simp: read_keys_def)
  moreover have "n \<in> fst ` set (table_rows (dim_country ?d))"
    using key_of_Some [OF n] by (force simp: read_keys_def)
  ultimately show ?thesis
    using d c p n by (simp add: s w fact_out_def resolved_def)
qed

theorem referential_completeness_witness:
  "\<exists>w s. main lantern_frame = Inr w \<and> table_rows (fact_sales w) = [(1, s)] \<and>
     (\<exists>d c p n.
        sale_date_key s = Some d \<and> d \<in> fst ` set (table_rows (dim_date (dims w))) \<and>
        sale_customer_key s = Some c \<and> c \<in> fst ` set (table_rows (dim_customer (dims w))) \<and>
        sale_product_key s = Some p \<and> p \<in> fst ` set (table_rows (dim_product (dims w))) \<and>
        sale_country_key s = Some n \<and> n \<in> fst ` set (table_rows (dim_country (dims w))))"
proof -
  obtain w where w: "main lantern_frame = Inr w"
    by (simp add: main_lantern_frame build_result)
  then obtain s where s: "table_rows (fact_sales w) = [(1, s)]"
    by (auto simp: main_lantern_frame build_result insert_all_def create_table_def)
  then have "s \<in> snd ` set (table_rows (fact_sales w))" by simp
  from referential_completeness [OF w this] w s show ?thesis by blast
qed

text \<open>
  C2. Every cleaned record has a date and a positive price, but not every one has a
  quantity other than zero. Line 61 compares the parsed quantity, a float, with zero, and
  line 88 truncates it to an integer afterwards. On the row of the scenario with quantity
  0.5 the run succeeds and \<open>fact_sales\<close> holds one row, with quantity 0 and revenue 0,
  although line 60 announces that rows of quantity zero are removed.
\<close>

theorem half_quantity_stored_as_zero:
  "to_numeric (half_row ''Quantity'') = Some (1 / 2) \<and>
   (\<exists>w. main \<lparr>columns = header, frame_rows = [half_row]\<rparr> = Inr w \<and>
      map (\<lambda>(k, s). (sale_quantity s, sale_revenue s)) (table_rows (fact_sales w)) = [(0, 0)])"
proof -
  let ?p = "\<lparr>source = half_row, InvoiceDate = morning, Quantity = 1 / 2,
      Price = round_double (339 / 100)\<rparr>"
  have f: "filter_rows header_names [half_row] = [?p]"
    by (simp add: half_row_def filter_eval)
  have safe: "\<forall>p\<in>set (filter_rows header_names [half_row]). \<forall>x.
      to_numeric (source p (CustomerIdCol header_names)) = Some x \<longrightarrow> int64_safe x"
    unfolding f by (simp add: half_row_def example_customer int64_safe_def)
  define c where "c = derive header_names ?p (show_int \<lfloor>17850 :: rat\<rfloor>)"
  have "clean header_names [half_row] = Inr [c]"
    unfolding clean_safe [OF safe] f c_def by (simp add: half_row_def example_customer)
  then have "main \<lparr>columns = header, frame_rows = [half_row]\<rparr> = build [c]"
    by (intro main_build [where cols = header_names]) (simp_all add: exact_mapping_header)
  then obtain w where w: "main \<lparr>columns = header, frame_rows = [half_row]\<rparr> = Inr w"
    and rows: "table_rows (fact_sales w) =
      [(1, fact_out (resolved (read_keys (load_dimensions [c])) c))]"
    by (simp add: build_result single_row)
  have "quantity c = 0" and "revenue c = 0"
    by (simp_all add: c_def derive_def Let_def astype_int_def trunc_def floor_rat_numeral
        round_double_0)
  then have "map (\<lambda>(k, s). (sale_quantity s, sale_revenue s)) (table_rows (fact_sales w)) =
      [(0, 0)]"
    by (simp add: rows fact_out_def resolved_def)
  moreover have "to_numeric (half_row ''Quantity'') = Some (1 / 2)"
    by (simp add: half_row_def example_customer)
  ultimately show ?thesis
    using w by auto
qed




text \<open>
  C4. Normalisation does not keep every row that passes the filters. Line 72 casts the whole
  column at once: of two rows that pass the filters, one without customer identifier and one
  whose identifier parses to 12345.5, neither is cleaned. The cast raises, there are no
  cleaned records and the run ends with the error, although line 69 announces that a
  missing identifier is kept as \<open>GUEST\<close> and line 71 coerces what does not parse.
\<close>

theorem fractional_customer_id_loses_rows:
  "length (filter_rows header_names [return_row, fractional_id_row]) = 2 \<and>
   to_numeric (return_row ''Customer ID'') = None \<and>
   to_numeric (fractional_id_row ''Customer ID'') = Some (24691 / 2) \<and>
   clean header_names [return_row, fractional_id_row] = Inl UnsafeIntCast \<and>
   main \<lparr>columns = header, frame_rows = [return_row, fractional_id_row]\<rparr> =
     Inl UnsafeIntCast"
proof -
  let ?p = "\<lparr>source = fractional_id_row, InvoiceDate = morning, Quantity = 6,
      Price = round_double (339 / 100)\<rparr>"
  have f: "filter_rows header_names [return_row, fractional_id_row] =
      [\<lparr>source = return_row, InvoiceDate = morning, Quantity = - 2,
         Price = round_double (339 / 100)\<rparr>, ?p]"
    by (simp add: return_row_def fractional_id_row_def filter_eval)
  have c: "clean header_names [return_row, fractional_id_row] = Inl UnsafeIntCast"
  proof (rule clean_unsafe)
    show "?p \<in> set (filter_rows header_names [return_row, fractional_id_row])"
      by (simp add: f)
    show "to_numeric (source ?p (CustomerIdCol header_names)) = Some (24691 / 2)"
      by (simp add: fractional_id_row_def example_customer)
    show "\<not> int64_safe (24691 / 2)"
      by (simp add: int64_safe_def floor_rat_numeral)
  qed
  then have "main \<lparr>columns = header, frame_rows = [return_row, fractional_id_row]\<rparr> =
      Inl UnsafeIntCast"
    by (simp add: main_def bind_def exact_mapping_header)
  moreover note c
  moreover have "length (filter_rows header_names [return_row, fractional_id_row]) = 2"
    by (simp add: f)
  moreover have "to_numeric (return_row ''Customer ID'') = None"
    and "to_numeric (fractional_id_row ''Customer ID'') = Some (24691 / 2)"
    by (simp_all add: return_row_def fractional_id_row_def example_customer)
  ultimately show ?thesis
    by simp
qed

text \<open>
  C5. The product dimension of a run has one row, with a key of its own, for each pair of
  stock code and description that occurs in the cleaned records, and no other row; two
  records with the same stock code and different descriptions have product rows with
  different keys.
\<close>

theorem product_entries:
  assumes "exact_mapping (columns df) = Inr cols" and "clean cols (frame_rows df) = Inr recs"
  shows "\<exists>w. main df = Inr w \<and>
     distinct (map fst (table_rows (dim_product (dims w)))) \<and>
     distinct (map snd (table_rows (dim_product (dims w)))) \<and>
     set (map snd (table_rows (dim_product (dims w)))) =
       (\<lambda>r. (stock_code r, description r)) ` set recs \<and>
     (\<forall>r\<in>set recs. \<forall>r'\<in>set recs.
        stock_code r = stock_code r' \<and> description r \<noteq> description r' \<longrightarrow>
        (\<exists>k k'. k \<noteq> k' \<and>
           (k, stock_code r, description r) \<in> set (table_rows (dim_product (dims w))) \<and>
           (k', stock_code r', description r') \<in> set (table_rows (dim_product (dims w)))))"
proof -
  let ?rows = "table_rows (dim_product (load_dimensions recs))"
  have rows: "?rows = product_keys (read_keys (load_dimensions recs))"
    by (simp add: read_keys_def)
  have k: "distinct (map fst ?rows)"
    unfolding load_dimensions_def by (simp add: dimension_table(1))
  have d: "distinct (map snd ?rows)"
    unfolding rows by (rule product_keys_load)
  have s: "set (map snd ?rows) = (\<lambda>r. (stock_code r, description r)) ` set recs"
    unfolding rows by (simp add: product_keys_load)
  have two: "\<exists>k k'. k \<noteq> k' \<and> (k, stock_code r, description r) \<in> set ?rows \<and>
      (k', stock_code r', description r') \<in> set ?rows"
    if r: "r \<in> set recs" and r': "r' \<in> set recs" and ne: "description r \<noteq> description r'"
    for r r'
  proof -
    from r s have "(stock_code r, description r) \<in> snd ` set ?rows" by auto
    then obtain k where k1: "(k, stock_code r, description r) \<in> set ?rows" by force
    from r' s have "(stock_code r', description r') \<in> snd ` set ?rows" by auto
    then obtain k' where k2: "(k', stock_code r', description r') \<in> set ?rows" by force
    have "k \<noteq> k'"
    proof
      assume "k = k'"
      with k k1 k2 have "(stock_code r, description r) = (stock_code r', description r')"
        by (auto dest: eq_key_imp_eq_value)
      with ne show False by simp
    qed
    with k1 k2 show ?thesis by blast
  qed
  then have "\<forall>r\<in>set recs. \<forall>r'\<in>set recs.
      stock_code r = stock_code r' \<and> description r \<noteq> description r' \<longrightarrow>
      (\<exists>k k'. k \<noteq> k' \<and> (k, stock_code r, description r) \<in> set ?rows \<and>
         (k', stock_code r', description r') \<in> set ?rows)"
    by blast
  with k d s show ?thesis
    unfolding main_result [OF assms] by simp
qed

theorem product_entries_witness:
  "\<exists>w. main \<lparr>columns = header, frame_rows = [lantern_row, relabelled_row]\<rparr> = Inr w \<and>
     distinct (map snd (table_rows (dim_product (dims w)))) \<and>
     set (map snd (table_rows (dim_product (dims w)))) =
       {(''71053'', ''WHITE METAL LANTERN''), (''71053'', ''WHITE MOROCCAN METAL LANTERN'')}"
proof -
  let ?df = "\<lparr>columns = header, frame_rows = [lantern_row, relabelled_row]\<rparr>"
  let ?p = "\<lparr>source = lantern_row, InvoiceDate = morning, Quantity = 6,
      Price = round_double (339 / 100)\<rparr>"
  let ?q = "\<lparr>source = relabelled_row, InvoiceDate = morning, Quantity = 1,
      Price = round_double (339 / 100)\<rparr>"
  have f: "filter_rows header_names [lantern_row, relabelled_row] = [?p, ?q]"
    by (simp add: lantern_row_def relabelled_row_def filter_eval)
  have safe: "\<forall>p\<in>set (filter_rows header_names [lantern_row, relabelled_row]). \<forall>x.
      to_numeric (source p (CustomerIdCol header_names)) = Some x \<longrightarrow> int64_safe x"
    unfolding f
    by (simp add: lantern_row_def relabelled_row_def example_customer int64_safe_def)
  define a where "a = derive header_names ?p
    (case to_numeric (source ?p (CustomerIdCol header_names)) of
       None \<Rightarrow> ''GUEST'' | Some x \<Rightarrow> show_int \<lfloor>x\<rfloor>)"
  define b where "b = derive header_names ?q
    (case to_numeric (source ?q (CustomerIdCol header_names)) of
       None \<Rightarrow> ''GUEST'' | Some x \<Rightarrow> show_int \<lfloor>x\<rfloor>)"
  have c: "clean header_names (frame_rows ?df) = Inr [a, b]"
    by (simp add: clean_safe [OF safe] f a_def b_def)
  have 1: "exact_mapping (columns ?df) = Inr header_names"
    by (simp add: exact_mapping_header)
  have ab: "(stock_code a, description a) = (''71053'', ''WHITE METAL LANTERN'')"
    "(stock_code b, description b) = (''71053'', ''WHITE MOROCCAN METAL LANTERN'')"
    by (simp_all add: a_def b_def derive_def Let_def lantern_row_def relabelled_row_def
        example_eval string_eval)
  from product_entries [OF 1 c] show ?thesis
    by (auto simp: ab)
qed

text \<open>
  C6. For any dimension tables and cleaned records, loading the facts completes: every row
  that the merges produce is stored, with NULL for a key that no dimension row provides. If
  some row lacks a key, the first message printed is the warning with the number of missing
  keys in each of the four key columns; if no row does, no warning is printed.
\<close>

theorem missing_keys_warning:
  "\<exists>t. load_facts d df =
       Inr \<lparr>dims = d, fact_sales = t,
            printed =
              (if list_all all_keys_found (merge_keys (read_keys d) df) then []
               else [Warning_missing_keys (isna_sum (merge_keys (read_keys d) df))])
              @ sanity_checks t\<rparr> \<and>
       map snd (table_rows t) = map fact_out (merge_keys (read_keys d) df)"
proof -
  have "missing_warning (isna_sum (merge_keys (read_keys d) df)) =
      (if list_all all_keys_found (merge_keys (read_keys d) df) then []
       else [Warning_missing_keys (isna_sum (merge_keys (read_keys d) df))])"
    by (simp add: no_missing_keys some_missing_keys)
  then show ?thesis
    by (simp add: load_facts_result stored_rows)
qed

theorem missing_keys_warning_witness:
  "(\<exists>t. load_facts (load_dimensions []) [lantern] =
       Inr \<lparr>dims = load_dimensions [], fact_sales = t,
            printed =
              Warning_missing_keys
                \<lparr>missing_date_key = 1, missing_customer_key = 1, missing_country_key = 1,
                 missing_product_key = 1\<rparr> # sanity_checks t\<rparr> \<and>
       map snd (table_rows t) =
         [fact_out \<lparr>line = lantern, date_key = None, customer_key = None, country_key = None,
                    product_key = None\<rparr>]) \<and>
   (\<exists>t. load_facts (load_dimensions [lantern]) [lantern] =
       Inr \<lparr>dims = load_dimensions [lantern], fact_sales = t, printed = sanity_checks t\<rparr>)"
proof -
  let ?f = "\<lparr>line = lantern, date_key = None, customer_key = None, country_key = None,
      product_key = None\<rparr>"
  have m: "merge_keys (read_keys (load_dimensions [])) [lantern] = [?f]"
    by (simp add: merge_keys_def merge_left_def read_keys_def load_dimensions_def
        insert_select_def create_table_def drop_duplicates_def)
  have w: "\<not> all_keys_found ?f"
    and i: "isna_sum [?f] = \<lparr>missing_date_key = 1, missing_customer_key = 1,
      missing_country_key = 1, missing_product_key = 1\<rparr>"
    by (simp_all add: all_keys_found_def isna_sum_def)
  have n: "list_all all_keys_found (merge_keys (read_keys (load_dimensions [lantern])) [lantern])"
    by (simp add: merge_keys_load resolved_found)
  from missing_keys_warning [of "load_dimensions []" "[lantern]"]
    missing_keys_warning [of "load_dimensions [lantern]" "[lantern]"]
  show ?thesis
    unfolding m by (auto simp: w i n)
qed




text \<open>
  C8. In a run in which the columns are found and the cast succeeds, the merges return one
  fact row for every cleaned record, in the order of the records, and \<open>fact_sales\<close> holds
  exactly these rows: as many rows as there are cleaned records.
\<close>

theorem one_fact_row_per_record:
  assumes "exact_mapping (columns df) = Inr cols" and "clean cols (frame_rows df) = Inr recs"
  shows "\<exists>w. main df = Inr w \<and>
     map line (merge_keys (read_keys (dims w)) recs) = recs \<and>
     map snd (table_rows (fact_sales w)) = map fact_out (merge_keys (read_keys (dims w)) recs) \<and>
     length (table_rows (fact_sales w)) = length recs"
proof -
  let ?ks = "read_keys (load_dimensions recs)"
  let ?t = "insert_all create_table (map (\<lambda>r. fact_out (resolved ?ks r)) recs)"
  have "map line (map (resolved ?ks) recs) = recs"
    by (simp add: resolved_def o_def)
  moreover have s: "map snd (table_rows ?t) = map fact_out (map (resolved ?ks) recs)"
    by (simp add: stored_rows)
  moreover have "length (table_rows ?t) = length (map snd (table_rows ?t))"
    by simp
  then have "length (table_rows ?t) = length recs"
    unfolding s by simp
  ultimately show ?thesis
    by (simp add: main_result [OF assms] merge_keys_load)
qed

theorem one_fact_row_per_record_witness:
  "\<exists>w. main \<lparr>columns = header, frame_rows = [lantern_row, return_row]\<rparr> = Inr w \<and>
     length (table_rows (fact_sales w)) = 2"
proof -
  let ?df = "\<lparr>columns = header, frame_rows = [lantern_row, return_row]\<rparr>"
  have f: "filter_rows header_names [lantern_row, return_row] =
      [\<lparr>source = lantern_row, InvoiceDate = morning, Quantity = 6,
         Price = round_double (339 / 100)\<rparr>,
       \<lparr>source = return_row, InvoiceDate = morning, Quantity = - 2,
         Price = round_double (339 / 100)\<rparr>]"
    by (simp add: lantern_row_def return_row_def filter_eval)
  have safe: "\<forall>p\<in>set (filter_rows header_names [lantern_row, return_row]). \<forall>x.
      to_numeric (source p (CustomerIdCol header_names)) = Some x \<longrightarrow> int64_safe x"
    unfolding f by (simp add: lantern_row_def return_row_def example_customer int64_safe_def)
  obtain recs where c: "clean header_names (frame_rows ?df) = Inr recs"
    and l: "length recs = 2"
    by (simp add: clean_safe [OF safe] f)
  have 1: "exact_mapping (columns ?df) = Inr header_names"
    by (simp add: exact_mapping_header)
  from one_fact_row_per_record [OF 1 c] l show ?thesis
    by auto
qed

text \<open>
  C9. A row whose cells convert to invoice 536365, stock code 71053, description
  WHITE METAL LANTERN, quantity 6, timestamp 2010-12-01 08:26, price 3.39 (the nearest
  double), customer 17850 and country United Kingdom is cleaned into one record with
  full date 2010-12-01, year 2010, month 12, quarter 4, revenue 20.34 (the nearest double,
  which is what the double product of 6 and 3.39 rounds to), return flag 0 and customer
  identifier 17850.
\<close>

theorem lantern_scenario:
  assumes "as_str (r ''Invoice'') = ''536365''"
    and "as_str (r ''StockCode'') = ''71053''"
    and "as_str (r ''Description'') = ''WHITE METAL LANTERN''"
    and "to_numeric (r ''Quantity'') = Some 6"
    and "to_datetime (r ''InvoiceDate'') = Some morning"
    and "to_numeric (r ''Price'') = Some (round_double (339 / 100))"
    and "to_numeric (r ''Customer ID'') = Some 17850"
    and "as_str (r ''Country'') = ''United Kingdom''"
  shows "\<exists>c. clean header_names [r] = Inr [c] \<and>
           full_date c = ''2010-12-01'' \<and> year c = 2010 \<and> month c = 12 \<and> quarter c = 4 \<and>
           revenue c = round_double (2034 / 100) \<and> is_return c = 0 \<and>
           customer_id c = ''17850''"
  using assms
  by (simp add: clean_eval morning_def header_names_def string_eval render_eval
      round_double_eval)

theorem lantern_scenario_witness:
  "as_str (lantern_row ''Invoice'') = ''536365'' \<and>
   to_numeric (lantern_row ''Quantity'') = Some 6 \<and>
   to_numeric (lantern_row ''Price'') = Some (round_double (339 / 100)) \<and>
   (\<exists>c. clean header_names [lantern_row] = Inr [c] \<and>
      full_date c = ''2010-12-01'' \<and> year c = 2010 \<and> month c = 12 \<and> quarter c = 4 \<and>
      revenue c = round_double (2034 / 100) \<and> is_return c = 0 \<and>
      customer_id c = ''17850'')"
proof -
  have r: "as_str (lantern_row ''Invoice'') = ''536365''"
    "as_str (lantern_row ''StockCode'') = ''71053''"
    "as_str (lantern_row ''Description'') = ''WHITE METAL LANTERN''"
    "to_numeric (lantern_row ''Quantity'') = Some 6"
    "to_datetime (lantern_row ''InvoiceDate'') = Some morning"
    "to_numeric (lantern_row ''Price'') = Some (round_double (339 / 100))"
    "to_numeric (lantern_row ''Customer ID'') = Some 17850"
    "as_str (lantern_row ''Country'') = ''United Kingdom''"
    by (simp_all add: lantern_row_def example_eval)
  from lantern_scenario [OF r] r show ?thesis
    by blast
qed

text \<open>
  C10, as stated, fails for a row that the filters drop: the customer identifiers are cast
  after the filters, so a file in which the only identifier that is not an integer, 12345.5,
  stands on a row of quantity 0 is loaded like the file without that row.
\<close>

theorem fractional_id_on_dropped_row:
  "to_numeric (unsold_row ''Customer ID'') = Some (24691 / 2) \<and>
   main \<lparr>columns = header, frame_rows = [lantern_row, unsold_row]\<rparr> =
     Inr \<lparr>dims = load_dimensions [lantern],
          fact_sales = insert_all create_table
            [fact_out (resolved (read_keys (load_dimensions [lantern])) lantern)],
          printed = [Fact_sales_rows 1, Returns [(0, 1)]]\<rparr>"
proof -
  have "filter_rows header_names [lantern_row, unsold_row] =
      filter_rows header_names [lantern_row]"
    by (simp add: lantern_row_def unsold_row_def filter_eval)
  then have "clean header_names [lantern_row, unsold_row] = Inr [lantern]"
    by (simp add: clean_filter_rows [of header_names "[lantern_row, unsold_row]" "[lantern_row]"]
        clean_lantern_row)
  then have "main \<lparr>columns = header, frame_rows = [lantern_row, unsold_row]\<rparr> =
      build [lantern]"
    by (intro main_build [where cols = header_names]) (simp_all add: exact_mapping_header)
  moreover have "group_count (map is_return [lantern]) = [(0, 1)]"
    by (simp add: group_count_def lantern_def)
  moreover have "to_numeric (unsold_row ''Customer ID'') = Some (24691 / 2)"
    by (simp add: unsold_row_def example_customer)
  ultimately show ?thesis
    by (simp add: build_result)
qed

text \<open>
  C10, amended. If the columns are found and some row that passes the filters of lines 52
  to 61 has a customer identifier that parses to a number which is not an integer, the run
  ends with the error of the cast of line 72: no identifier is normalised and no table is
  loaded. So a run can only succeed if every customer identifier that parses, on a row that
  passes the filters, is an integer.
\<close>

theorem non_integral_customer_id_aborts:
  assumes "exact_mapping (columns df) = Inr cols"
    and "p \<in> set (filter_rows cols (frame_rows df))"
    and "to_numeric (source p (CustomerIdCol cols)) = Some x"
    and "of_int \<lfloor>x\<rfloor> \<noteq> x"
  shows "main df = Inl UnsafeIntCast"
proof -
  from assms(4) have "\<not> int64_safe x"
    by (simp add: int64_safe_def)
  with assms(2,3) have "clean cols (frame_rows df) = Inl UnsafeIntCast"
    by (rule clean_unsafe)
  with assms(1) show ?thesis
    by (simp add: main_def bind_def)
qed

theorem non_integral_customer_id_aborts_witness:
  "to_numeric (decimal_id_row ''Customer ID'') = Some (round_double (123457 / 10)) \<and>
   main \<lparr>columns = header, frame_rows = [lantern_row, decimal_id_row]\<rparr> = Inl UnsafeIntCast"
proof -
  let ?df = "\<lparr>columns = header, frame_rows = [lantern_row, decimal_id_row]\<rparr>"
  let ?p = "\<lparr>source = decimal_id_row, InvoiceDate = morning, Quantity = 6,
      Price = round_double (339 / 100)\<rparr>"
  have 1: "exact_mapping (columns ?df) = Inr header_names"
    by (simp add: exact_mapping_header)
  have 2: "?p \<in> set (filter_rows header_names (frame_rows ?df))"
    by (simp add: lantern_row_def decimal_id_row_def filter_eval)
  have 3: "to_numeric (source ?p (CustomerIdCol header_names)) =
      Some (round_double (123457 / 10))"
    by (simp add: decimal_id_row_def example_customer)
  have 4: "of_int \<lfloor>round_double (123457 / 10)\<rfloor> \<noteq> round_double (123457 / 10)"
    by (simp add: round_double_eval)
  from non_integral_customer_id_aborts [OF 1 2 3 4] show ?thesis
    by (simp add: decimal_id_row_def example_customer)
qed

end
